theory Spec2Isabelle
  imports Main "HOL-Library.Word"
begin

section \<open>The bytecode compiler of waiacig\<close>

text \<open>
  The development embeds package \<open>compiler\<close>: the \<open>Compiler\<close> struct, \<open>NewCompiler\<close>,
  \<open>Compile\<close> and \<open>Bytecode\<close>, together with the helpers of the package's test file
  (\<open>concatInstructions\<close>, \<open>testInstructions\<close>, \<open>testConstants\<close>, \<open>testIntegerObject\<close>,
  \<open>testStringObject\<close>, \<open>runCompilerTests\<close>). The packages \<open>code\<close>, \<open>object\<close> and \<open>ast\<close> are
  imported by the compiler; their files are missing from the sources.
\<close>

subsection \<open>Package code\<close>

text \<open>\<open>code.Instructions\<close> is a byte slice. An \<open>int64\<close> is a 64-bit word, read as signed.\<close>

type_synonym Instructions = "8 word list"
type_synonym int64 = "64 word"

text \<open>
  Modelled from the spec: the opcode set of package \<open>code\<close> is missing. An opcode is a
  single-byte tag; the names are the ones the test file refers to.
\<close>

datatype Opcode =
    OpConstant | OpAdd | OpPop | OpSub | OpMul | OpDiv
  | OpTrue | OpFalse | OpEqual | OpNotEqual | OpGreaterThan
  | OpMinus | OpBang | OpJumpNotTruthy | OpJump | OpNull
  | OpGetGlobal | OpSetGlobal | OpArray | OpHash | OpIndex
  | OpCall | OpReturnValue | OpReturn | OpGetLocal | OpSetLocal

text \<open>
  Modelled from the spec: the table of opcode definitions of package \<open>code\<close> is missing.
  Neither the byte that stands for an opcode nor the operand widths of an opcode are
  fixed here; both are taken as a parameter, so that every statement below holds for
  every numbering and every width table.
\<close>

record Definitions =
  opbyte :: "Opcode \<Rightarrow> 8 word"
  OperandWidths :: "Opcode \<Rightarrow> nat list"

text \<open>The \<open>w\<close> low bytes of \<open>v\<close>, most significant byte first.\<close>

fun big_endian :: "nat \<Rightarrow> nat \<Rightarrow> 8 word list" where
  "big_endian 0 v = []"
| "big_endian (Suc w) v = word_of_nat (v div 256 ^ w) # big_endian w v"

text \<open>
  Modelled from the spec: \<open>code.MakeInstruction\<close> is missing. It packs the opcode byte
  followed by each operand encoded big-endian at its declared width.
\<close>

definition MakeInstruction :: "Definitions \<Rightarrow> Opcode \<Rightarrow> nat list \<Rightarrow> Instructions" where
  "MakeInstruction d op operands =
     opbyte d op # concat (map (\<lambda>(w, v). big_endian w v) (zip (OperandWidths d op) operands))"

subsection \<open>Package object\<close>

text \<open>
  Modelled from the spec: package \<open>object\<close> is missing. The constant pool holds tagged
  runtime values: integer, string, boolean, array, mapping, compiled function, null.
  The test file reads \<open>Value\<close> of an \<open>Integer\<close> as \<open>int64\<close>, \<open>Value\<close> of a \<open>String\<close> as
  a string and \<open>Instructions\<close> of a \<open>CompiledFunction\<close>.
\<close>

datatype Object =
    Integer int64
  | String string
  | Boolean bool
  | Null
  | Array "Object list"
  | Hash "(Object \<times> Object) list"
  | CompiledFunction Instructions

subsection \<open>Package ast\<close>

text \<open>
  Modelled from the spec: package \<open>ast\<close> is missing. The node kinds are the ones the
  traversal rules of the compiler enumerate. The pairs of a hash literal are kept as a
  list: its order is the incidental enumeration order of the host collection.
\<close>

datatype Expression =
    IntegerLiteral int64
  | StringLiteral string
  | BooleanLiteral bool
  | Identifier string
  | PrefixExpression string Expression
  | InfixExpression Expression string Expression
  | IfExpression Expression "Statement list" "Statement list option"
  | ArrayLiteral "Expression list"
  | HashLiteral "(Expression \<times> Expression) list"
  | IndexExpression Expression Expression
  | FunctionLiteral "string list" "Statement list"
  | CallExpression Expression "Expression list"
and Statement =
    ExpressionStatement Expression
  | LetStatement string Expression
  | ReturnStatement "Expression option"

datatype Node =
    Program "Statement list"
  | StatementNode Statement
  | ExpressionNode Expression

subsection \<open>Errors\<close>

text \<open>
  A Go \<open>error\<close> is a value; \<open>nil\<close> is \<open>None\<close>. One constructor stands for each
  \<open>fmt.Errorf\<close> of the sources, carrying the values the message is formatted from.
\<close>

datatype error =
    WrongInstructionsLength Instructions Instructions
  | WrongInstructionAt nat Instructions Instructions
  | WrongNumberOfConstants nat nat
  | IntegerConstantFailed nat error
  | StringConstantFailed nat error
  | NotAFunction nat Object
  | FunctionConstantFailed nat error
  | NotInteger Object
  | WrongIntegerValue int64 int64
  | NotString Object
  | WrongStringValue string string

subsection \<open>Package compiler\<close>

record Compiler =
  instructions :: Instructions
  constants :: "Object list"

text \<open>
  \<open>NewCompiler\<close> returns a pointer and the methods have pointer receivers. The store
  holds the compilers allocated so far; a pointer is an index into it.
\<close>

type_synonym heap = "Compiler list"
type_synonym ref = nat

definition NewCompiler :: "heap \<Rightarrow> ref \<times> heap" where
  "NewCompiler h = (length h, h @ [\<lparr>instructions = [], constants = []\<rparr>])"

text \<open>\<open>Compile\<close> returns \<open>nil\<close>; it reads neither its receiver nor the node.\<close>

definition Compile :: "heap \<Rightarrow> ref \<Rightarrow> Node \<Rightarrow> error option \<times> heap" where
  "Compile h c node = (None, h)"

record Bytecode =
  Instructions :: Instructions
  Constants :: "Object list"

text \<open>
  \<open>Bytecode\<close> dereferences its receiver: on a pointer that is not in the store the
  result is \<open>None\<close> (the panic of a nil dereference).
\<close>

definition Bytecode :: "heap \<Rightarrow> ref \<Rightarrow> Bytecode option" where
  "Bytecode h c =
     (if c < length h
      then Some \<lparr>Instructions = instructions (h ! c), Constants = constants (h ! c)\<rparr>
      else None)"

subsection \<open>The test helpers of package compiler\<close>

text \<open>
  An element of \<open>expectedConstants\<close> is an \<open>int\<close>, a \<open>string\<close> or a slice of
  instructions; these are the three cases of the type switch in \<open>testConstants\<close>.
\<close>

datatype Expected =
    ExpectInt int64
  | ExpectString string
  | ExpectInstructions "Instructions list"

record compilerTestCase =
  input :: string
  expectedConstants :: "Expected list"
  expectedInstructions :: "Instructions list"

definition concatInstructions :: "Instructions list \<Rightarrow> Instructions" where
  "concatInstructions s = foldl (\<lambda>out ins. out @ ins) [] s"

text \<open>
  The loop of \<open>testInstructions\<close> over \<open>concatted\<close>: the first index at which \<open>actual\<close>
  differs. It runs only when both have the same length.
\<close>

fun firstDifference :: "nat \<Rightarrow> Instructions \<Rightarrow> Instructions \<Rightarrow> nat option" where
  "firstDifference i [] actual = None"
| "firstDifference i (ins # rest) actual =
     (if actual ! i \<noteq> ins then Some i else firstDifference (Suc i) rest actual)"

definition testInstructions :: "Instructions list \<Rightarrow> Instructions \<Rightarrow> error option" where
  "testInstructions expected actual =
     (let concatted = concatInstructions expected in
      if length actual \<noteq> length concatted
      then Some (WrongInstructionsLength concatted actual)
      else (case firstDifference 0 concatted actual of
              Some i \<Rightarrow> Some (WrongInstructionAt i concatted actual)
            | None \<Rightarrow> None))"

definition testIntegerObject :: "int64 \<Rightarrow> Object \<Rightarrow> error option" where
  "testIntegerObject expected actual =
     (case actual of
        Integer v \<Rightarrow> (if v \<noteq> expected then Some (WrongIntegerValue v expected) else None)
      | _ \<Rightarrow> Some (NotInteger actual))"

definition testStringObject :: "string \<Rightarrow> Object \<Rightarrow> error option" where
  "testStringObject expected actual =
     (case actual of
        String v \<Rightarrow> (if v \<noteq> expected then Some (WrongStringValue v expected) else None)
      | _ \<Rightarrow> Some (NotString actual))"

text \<open>
  The loop of \<open>testConstants\<close> over \<open>expected\<close>, from index \<open>i\<close> on. It runs only when
  \<open>expected\<close> and \<open>actual\<close> have the same length.
\<close>

fun checkConstants :: "nat \<Rightarrow> Expected list \<Rightarrow> Object list \<Rightarrow> error option" where
  "checkConstants i [] actual = None"
| "checkConstants i (ExpectInt n # rest) actual =
     (case testIntegerObject n (actual ! i) of
        Some err \<Rightarrow> Some (IntegerConstantFailed i err)
      | None \<Rightarrow> checkConstants (Suc i) rest actual)"
| "checkConstants i (ExpectString s # rest) actual =
     (case testStringObject s (actual ! i) of
        Some err \<Rightarrow> Some (StringConstantFailed i err)
      | None \<Rightarrow> checkConstants (Suc i) rest actual)"
| "checkConstants i (ExpectInstructions ins # rest) actual =
     (case actual ! i of
        CompiledFunction fn \<Rightarrow>
          (case testInstructions ins fn of
             Some err \<Rightarrow> Some (FunctionConstantFailed i err)
           | None \<Rightarrow> checkConstants (Suc i) rest actual)
      | _ \<Rightarrow> Some (NotAFunction i (actual ! i)))"

definition testConstants :: "Expected list \<Rightarrow> Object list \<Rightarrow> error option" where
  "testConstants expected actual =
     (if length expected \<noteq> length actual
      then Some (WrongNumberOfConstants (length actual) (length expected))
      else checkConstants 0 expected actual)"

text \<open>
  How a run of \<open>runCompilerTests\<close> stops early: one constructor for each \<open>t.Fatalf\<close>,
  and one for the panic of \<open>Bytecode\<close> on a pointer that is not in the store.
\<close>

datatype failure =
    CompilerError error
  | TestInstructionsFailed error
  | TestConstantsFailed error
  | NilDereference

text \<open>
  \<open>runCompilerTests\<close> parses each input, compiles it with a fresh compiler and compares
  the bytecode with the expectation; the first failure ends the run. The lexer and the
  parser behind \<open>parse\<close> are a parameter.
\<close>

fun runCompilerTests ::
  "(string \<Rightarrow> Node) \<Rightarrow> heap \<Rightarrow> compilerTestCase list \<Rightarrow> failure option \<times> heap" where
  "runCompilerTests parse h [] = (None, h)"
| "runCompilerTests parse h (tt # tests) =
     (let program = parse (input tt);
          (compiler, h1) = NewCompiler h;
          (err, h2) = Compile h1 compiler program
      in case err of
           Some e \<Rightarrow> (Some (CompilerError e), h2)
         | None \<Rightarrow>
             (case Bytecode h2 compiler of
                None \<Rightarrow> (Some NilDereference, h2)
              | Some bytecode \<Rightarrow>
                  (case testInstructions (expectedInstructions tt) (Instructions bytecode) of
                     Some e \<Rightarrow> (Some (TestInstructionsFailed e), h2)
                   | None \<Rightarrow>
                       (case testConstants (expectedConstants tt) (Constants bytecode) of
                          Some e \<Rightarrow> (Some (TestConstantsFailed e), h2)
                        | None \<Rightarrow> runCompilerTests parse h2 tests))))"

subsection \<open>Test cases of the test file\<close>

text \<open>\<open>TestIntegerArithmetic\<close>, first case.\<close>

definition test_add :: "Definitions \<Rightarrow> compilerTestCase" where
  "test_add d =
     \<lparr>input = ''1 + 2'',
      expectedConstants = [ExpectInt 1, ExpectInt 2],
      expectedInstructions =
        [MakeInstruction d OpConstant [0],
         MakeInstruction d OpConstant [1],
         MakeInstruction d OpAdd [],
         MakeInstruction d OpPop []]\<rparr>"

text \<open>\<open>TestBooleanExpressions\<close>, fourth case.\<close>

definition test_less_than :: "Definitions \<Rightarrow> compilerTestCase" where
  "test_less_than d =
     \<lparr>input = ''1 < 2'',
      expectedConstants = [ExpectInt 2, ExpectInt 1],
      expectedInstructions =
        [MakeInstruction d OpConstant [0],
         MakeInstruction d OpConstant [1],
         MakeInstruction d OpGreaterThan [],
         MakeInstruction d OpPop []]\<rparr>"

text \<open>\<open>TestConditionals\<close>. The input is a raw string that spans three lines.\<close>

definition test_conditional :: "Definitions \<Rightarrow> compilerTestCase" where
  "test_conditional d =
     \<lparr>input = [CHR 0x0A, CHR 0x09, CHR 0x09, CHR 0x09] @ ''if (true) {10}; 3333;''
                @ [CHR 0x0A, CHR 0x09, CHR 0x09, CHR 0x09],
      expectedConstants = [ExpectInt 10, ExpectInt 3333],
      expectedInstructions =
        [MakeInstruction d OpTrue [],
         MakeInstruction d OpJumpNotTruthy [10],
         MakeInstruction d OpConstant [0],
         MakeInstruction d OpJump [11],
         MakeInstruction d OpNull [],
         MakeInstruction d OpPop [],
         MakeInstruction d OpConstant [1],
         MakeInstruction d OpPop []]\<rparr>"

text \<open>\<open>TestGlobalLetStatements\<close>, second case.\<close>

definition test_global_let :: "Definitions \<Rightarrow> compilerTestCase" where
  "test_global_let d =
     \<lparr>input = [CHR 0x0A, CHR 0x09] @ ''let one = 1;'' @ [CHR 0x0A, CHR 0x09] @ ''one;''
                @ [CHR 0x0A, CHR 0x09],
      expectedConstants = [ExpectInt 1],
      expectedInstructions =
        [MakeInstruction d OpConstant [0],
         MakeInstruction d OpSetGlobal [0],
         MakeInstruction d OpGetGlobal [0],
         MakeInstruction d OpPop []]\<rparr>"

text \<open>\<open>TestHashLiterals\<close>, second case.\<close>

definition test_hash :: "Definitions \<Rightarrow> compilerTestCase" where
  "test_hash d =
     \<lparr>input = ''{1: 2, 3: 4, 5: 6}'',
      expectedConstants =
        [ExpectInt 1, ExpectInt 2, ExpectInt 3, ExpectInt 4, ExpectInt 5, ExpectInt 6],
      expectedInstructions =
        [MakeInstruction d OpConstant [0],
         MakeInstruction d OpConstant [1],
         MakeInstruction d OpConstant [2],
         MakeInstruction d OpConstant [3],
         MakeInstruction d OpConstant [4],
         MakeInstruction d OpConstant [5],
         MakeInstruction d OpHash [6],
         MakeInstruction d OpPop []]\<rparr>"

text \<open>\<open>TestFunctionsWithoutReturnValue\<close>.\<close>

definition test_empty_function :: "Definitions \<Rightarrow> compilerTestCase" where
  "test_empty_function d =
     \<lparr>input = ''fn() { }'',
      expectedConstants = [ExpectInstructions [MakeInstruction d OpReturn []]],
      expectedInstructions =
        [MakeInstruction d OpConstant [0],
         MakeInstruction d OpPop []]\<rparr>"

subsection \<open>Sequences of calls\<close>

text \<open>Successive calls of \<open>Compile\<close> on one receiver, one for each node of the list.\<close>

fun CompileAll :: "heap \<Rightarrow> ref \<Rightarrow> Node list \<Rightarrow> heap" where
  "CompileAll h c [] = h"
| "CompileAll h c (node # nodes) = CompileAll (snd (Compile h c node)) c nodes"

section \<open>Properties\<close>

subsection \<open>Auxiliary facts\<close>

lemma MakeInstruction_not_Nil: "MakeInstruction d op operands \<noteq> []"
  by (simp add: MakeInstruction_def)

lemma concatInstructions_Cons_not_Nil:
  "concatInstructions (MakeInstruction d op operands # rest) \<noteq> []"
proof -
  have "\<And>acc. acc \<noteq> [] \<Longrightarrow> foldl (\<lambda>out ins. out @ ins) acc rest \<noteq> []"
    by (induction rest) simp_all
  then show ?thesis
    by (simp add: concatInstructions_def MakeInstruction_not_Nil)
qed

text \<open>
  A run of \<open>runCompilerTests\<close> stops at its first case as soon as that case expects any
  instruction at all: the fresh compiler hands back no instructions.
\<close>

lemma first_test_fails:
  assumes "concatInstructions (expectedInstructions tt) \<noteq> []"
  shows "fst (runCompilerTests parse h (tt # tests)) =
           Some (TestInstructionsFailed
                  (WrongInstructionsLength (concatInstructions (expectedInstructions tt)) []))"
  using assms
  by (simp add: NewCompiler_def Compile_def Bytecode_def testInstructions_def Let_def)

lemma CompileAll_id: "CompileAll h c nodes = h"
  by (induction nodes) (simp_all add: Compile_def)

subsection \<open>What Compile produces on the programs of the test file\<close>

text \<open>
  Each statement below has two parts. The first evaluates a fresh compiler on the
  syntax tree of the program: \<open>Compile\<close> returns \<open>nil\<close> and \<open>Bytecode\<close> holds no
  instructions and no constants. The second runs the test case of the test file for the
  same program, for every parser and every opcode table: the run fails in
  \<open>testInstructions\<close>, since the expected instructions are not empty.
\<close>

text \<open>
  C1. The spec has \<open>1 + 2\<close>, as an expression statement, compile to the constants
  \<open>[1, 2]\<close> and to push-constant 0, push-constant 1, add, pop. The code compiles it to
  nothing, and its own test case for \<open>1 + 2\<close> fails.
\<close>

theorem infix_add_statement_not_compiled:
  "(let (c, h1) = NewCompiler h;
        (err, h2) = Compile h1 c
          (Program [ExpressionStatement
                      (InfixExpression (IntegerLiteral 1) ''+'' (IntegerLiteral 2))])
    in err = None \<and> Bytecode h2 c = Some \<lparr>Instructions = [], Constants = []\<rparr>)
   \<and> fst (runCompilerTests parse h [test_add d]) =
       Some (TestInstructionsFailed
              (WrongInstructionsLength
                 (concatInstructions (expectedInstructions (test_add d))) []))"
proof
  show "(let (c, h1) = NewCompiler h;
        (err, h2) = Compile h1 c
          (Program [ExpressionStatement
                      (InfixExpression (IntegerLiteral 1) ''+'' (IntegerLiteral 2))])
    in err = None \<and> Bytecode h2 c = Some \<lparr>Instructions = [], Constants = []\<rparr>)"
    by (simp add: NewCompiler_def Compile_def Bytecode_def)
next
  have "concatInstructions (expectedInstructions (test_add d)) \<noteq> []"
    by (simp add: test_add_def concatInstructions_Cons_not_Nil)
  then show "fst (runCompilerTests parse h [test_add d]) =
       Some (TestInstructionsFailed
              (WrongInstructionsLength
                 (concatInstructions (expectedInstructions (test_add d))) []))"
    by (rule first_test_fails)
qed

text \<open>
  C2. The spec has \<open>1 < 2\<close> compile to the constants \<open>[2, 1]\<close> and to
  push-constant 0, push-constant 1, greater-than, pop. The code compiles it to nothing,
  and its own test case for \<open>1 < 2\<close> fails.
\<close>

theorem less_than_statement_not_compiled:
  "(let (c, h1) = NewCompiler h;
        (err, h2) = Compile h1 c
          (Program [ExpressionStatement
                      (InfixExpression (IntegerLiteral 1) ''<'' (IntegerLiteral 2))])
    in err = None \<and> Bytecode h2 c = Some \<lparr>Instructions = [], Constants = []\<rparr>)
   \<and> fst (runCompilerTests parse h [test_less_than d]) =
       Some (TestInstructionsFailed
              (WrongInstructionsLength
                 (concatInstructions (expectedInstructions (test_less_than d))) []))"
proof
  show "(let (c, h1) = NewCompiler h;
        (err, h2) = Compile h1 c
          (Program [ExpressionStatement
                      (InfixExpression (IntegerLiteral 1) ''<'' (IntegerLiteral 2))])
    in err = None \<and> Bytecode h2 c = Some \<lparr>Instructions = [], Constants = []\<rparr>)"
    by (simp add: NewCompiler_def Compile_def Bytecode_def)
next
  have "concatInstructions (expectedInstructions (test_less_than d)) \<noteq> []"
    by (simp add: test_less_than_def concatInstructions_Cons_not_Nil)
  then show "fst (runCompilerTests parse h [test_less_than d]) =
       Some (TestInstructionsFailed
              (WrongInstructionsLength
                 (concatInstructions (expectedInstructions (test_less_than d))) []))"
    by (rule first_test_fails)
qed

text \<open>
  C3. The spec has \<open>if (true) { 10 }; 3333;\<close> compile to the constants \<open>[10, 3333]\<close>
  and to eight instructions with the jump targets 10 and 11. The code compiles it to
  nothing, and its own test case for the conditional fails.
\<close>

theorem conditional_not_compiled:
  "(let (c, h1) = NewCompiler h;
        (err, h2) = Compile h1 c
          (Program [ExpressionStatement
                      (IfExpression (BooleanLiteral True)
                         [ExpressionStatement (IntegerLiteral 10)] None),
                    ExpressionStatement (IntegerLiteral 3333)])
    in err = None \<and> Bytecode h2 c = Some \<lparr>Instructions = [], Constants = []\<rparr>)
   \<and> fst (runCompilerTests parse h [test_conditional d]) =
       Some (TestInstructionsFailed
              (WrongInstructionsLength
                 (concatInstructions (expectedInstructions (test_conditional d))) []))"
proof
  show "(let (c, h1) = NewCompiler h;
        (err, h2) = Compile h1 c
          (Program [ExpressionStatement
                      (IfExpression (BooleanLiteral True)
                         [ExpressionStatement (IntegerLiteral 10)] None),
                    ExpressionStatement (IntegerLiteral 3333)])
    in err = None \<and> Bytecode h2 c = Some \<lparr>Instructions = [], Constants = []\<rparr>)"
    by (simp add: NewCompiler_def Compile_def Bytecode_def)
next
  have "concatInstructions (expectedInstructions (test_conditional d)) \<noteq> []"
    by (simp add: test_conditional_def concatInstructions_Cons_not_Nil)
  then show "fst (runCompilerTests parse h [test_conditional d]) =
       Some (TestInstructionsFailed
              (WrongInstructionsLength
                 (concatInstructions (expectedInstructions (test_conditional d))) []))"
    by (rule first_test_fails)
qed

text \<open>
  C4. The spec has \<open>let one = 1; one;\<close> compile to the constants \<open>[1]\<close> and to
  push-constant 0, set-global 0, get-global 0, pop. The code compiles it to nothing, and
  its own test case for the program fails.
\<close>

theorem global_let_not_compiled:
  "(let (c, h1) = NewCompiler h;
        (err, h2) = Compile h1 c
          (Program [LetStatement ''one'' (IntegerLiteral 1),
                    ExpressionStatement (Identifier ''one'')])
    in err = None \<and> Bytecode h2 c = Some \<lparr>Instructions = [], Constants = []\<rparr>)
   \<and> fst (runCompilerTests parse h [test_global_let d]) =
       Some (TestInstructionsFailed
              (WrongInstructionsLength
                 (concatInstructions (expectedInstructions (test_global_let d))) []))"
proof
  show "(let (c, h1) = NewCompiler h;
        (err, h2) = Compile h1 c
          (Program [LetStatement ''one'' (IntegerLiteral 1),
                    ExpressionStatement (Identifier ''one'')])
    in err = None \<and> Bytecode h2 c = Some \<lparr>Instructions = [], Constants = []\<rparr>)"
    by (simp add: NewCompiler_def Compile_def Bytecode_def)
next
  have "concatInstructions (expectedInstructions (test_global_let d)) \<noteq> []"
    by (simp add: test_global_let_def concatInstructions_Cons_not_Nil)
  then show "fst (runCompilerTests parse h [test_global_let d]) =
       Some (TestInstructionsFailed
              (WrongInstructionsLength
                 (concatInstructions (expectedInstructions (test_global_let d))) []))"
    by (rule first_test_fails)
qed

text \<open>
  C5. The spec has \<open>{1: 2, 3: 4, 5: 6}\<close> compile to the constants
  \<open>[1, 2, 3, 4, 5, 6]\<close>, six push-constant instructions, hash-build 6 and pop. The code
  compiles it to nothing, and its own test case for the literal fails.
\<close>

theorem hash_literal_not_compiled:
  "(let (c, h1) = NewCompiler h;
        (err, h2) = Compile h1 c
          (Program [ExpressionStatement
                      (HashLiteral
                         [(IntegerLiteral 1, IntegerLiteral 2),
                          (IntegerLiteral 3, IntegerLiteral 4),
                          (IntegerLiteral 5, IntegerLiteral 6)])])
    in err = None \<and> Bytecode h2 c = Some \<lparr>Instructions = [], Constants = []\<rparr>)
   \<and> fst (runCompilerTests parse h [test_hash d]) =
       Some (TestInstructionsFailed
              (WrongInstructionsLength
                 (concatInstructions (expectedInstructions (test_hash d))) []))"
proof
  show "(let (c, h1) = NewCompiler h;
        (err, h2) = Compile h1 c
          (Program [ExpressionStatement
                      (HashLiteral
                         [(IntegerLiteral 1, IntegerLiteral 2),
                          (IntegerLiteral 3, IntegerLiteral 4),
                          (IntegerLiteral 5, IntegerLiteral 6)])])
    in err = None \<and> Bytecode h2 c = Some \<lparr>Instructions = [], Constants = []\<rparr>)"
    by (simp add: NewCompiler_def Compile_def Bytecode_def)
next
  have "concatInstructions (expectedInstructions (test_hash d)) \<noteq> []"
    by (simp add: test_hash_def concatInstructions_Cons_not_Nil)
  then show "fst (runCompilerTests parse h [test_hash d]) =
       Some (TestInstructionsFailed
              (WrongInstructionsLength
                 (concatInstructions (expectedInstructions (test_hash d))) []))"
    by (rule first_test_fails)
qed

text \<open>
  C6. The spec has \<open>fn() { }\<close> produce a compiled-function constant whose
  instructions are exactly return-without-value. The code produces no constant at all,
  and its own test case for the empty function fails.
\<close>

theorem empty_function_not_compiled:
  "(let (c, h1) = NewCompiler h;
        (err, h2) = Compile h1 c
          (Program [ExpressionStatement (FunctionLiteral [] [])])
    in err = None \<and> Bytecode h2 c = Some \<lparr>Instructions = [], Constants = []\<rparr>)
   \<and> fst (runCompilerTests parse h [test_empty_function d]) =
       Some (TestInstructionsFailed
              (WrongInstructionsLength
                 (concatInstructions (expectedInstructions (test_empty_function d))) []))"
proof
  show "(let (c, h1) = NewCompiler h;
        (err, h2) = Compile h1 c
          (Program [ExpressionStatement (FunctionLiteral [] [])])
    in err = None \<and> Bytecode h2 c = Some \<lparr>Instructions = [], Constants = []\<rparr>)"
    by (simp add: NewCompiler_def Compile_def Bytecode_def)
next
  have "concatInstructions (expectedInstructions (test_empty_function d)) \<noteq> []"
    by (simp add: test_empty_function_def concatInstructions_Cons_not_Nil)
  then show "fst (runCompilerTests parse h [test_empty_function d]) =
       Some (TestInstructionsFailed
              (WrongInstructionsLength
                 (concatInstructions (expectedInstructions (test_empty_function d))) []))"
    by (rule first_test_fails)
qed

subsection \<open>Errors\<close>

text \<open>
  C7. The spec has a program that refers to an identifier nobody defined fail to
  compile. On the program \<open>foo;\<close> a fresh compiler returns \<open>nil\<close> and leaves an empty
  bytecode behind.
\<close>

theorem undefined_identifier_not_reported:
  "(let (c, h1) = NewCompiler h;
        (err, h2) = Compile h1 c (Program [ExpressionStatement (Identifier ''foo'')])
    in err = None \<and> Bytecode h2 c = Some \<lparr>Instructions = [], Constants = []\<rparr>)"
  by (simp add: NewCompiler_def Compile_def Bytecode_def)

text \<open>
  C9. For every node, well-formed or not, \<open>Compile\<close> returns \<open>nil\<close>: it reports no
  error, whatever the receiver and the store are.
\<close>

theorem Compile_returns_nil: "fst (Compile h c node) = None"
  by (simp add: Compile_def)

subsection \<open>Determinism and the empty bytecode\<close>

text \<open>
  C8. Compiling one syntax tree with two fresh compilers gives the same bytecode. First
  part: both compilers live in one store, the second is created after the first, and
  both bytecodes are read after both compilations; the two pointers differ, the two
  error results agree and the two bytecodes exist and are equal. Second part: the
  bytecode of a fresh compiler does not depend on the store it is created in.
\<close>

theorem fresh_compilers_agree:
  "(let (c1, h1) = NewCompiler h;
        (c2, h2) = NewCompiler h1;
        (e1, h3) = Compile h2 c1 node;
        (e2, h4) = Compile h3 c2 node
    in c1 \<noteq> c2 \<and> e1 = e2 \<and> Bytecode h4 c1 \<noteq> None \<and> Bytecode h4 c1 = Bytecode h4 c2)
   \<and> Bytecode (snd (Compile (snd (NewCompiler h)) (fst (NewCompiler h)) node))
        (fst (NewCompiler h))
     = Bytecode (snd (Compile (snd (NewCompiler h')) (fst (NewCompiler h')) node))
        (fst (NewCompiler h'))"
  by (simp add: NewCompiler_def Compile_def Bytecode_def nth_append)

text \<open>
  C10. After \<open>NewCompiler\<close> and any sequence of \<open>Compile\<close> calls on the new compiler,
  the store is the one \<open>NewCompiler\<close> left (no field of any compiler has changed) and
  \<open>Bytecode\<close> returns empty instructions and empty constants.
\<close>

theorem Compile_keeps_bytecode_empty:
  "(let (c, h1) = NewCompiler h;
        h2 = CompileAll h1 c nodes
    in h2 = h1 \<and> Bytecode h2 c = Some \<lparr>Instructions = [], Constants = []\<rparr>)"
  by (simp add: CompileAll_id NewCompiler_def Bytecode_def)

end
